theory Spec2Isabelle
  imports Complex_Main "HOL-Library.Product_Lexorder"
begin

section \<open>Exceptions\<close>

text \<open>
  The Python exceptions that the modelled code can raise.  A call that raises is a value
  \<open>Inl e\<close>; no operation modelled here mutates anything before it raises, so after
  \<open>Inl e\<close> every object is as it was before the call.
\<close>

datatype error =
    KeyError | ValueError | TypeError | AttributeError
  | OverflowError | ZeroDivisionError | JSONDecodeError
  | Unmodelled

section \<open>The standard library's naive date and time\<close>

text \<open>
  \<open>datetime\<close> objects hold the seven calendar fields; the functions below follow the
  reference implementation of the \<open>datetime\<close> module (proleptic Gregorian calendar, day
  number 1 is 0001-01-01, the largest date is 9999-12-31).  The \<open>fold\<close> bit is left out:
  comparison, arithmetic and \<open>isoformat\<close> of naive values ignore it.
\<close>

record datetime =
  year :: int
  month :: int
  day :: int
  hour :: int
  minute :: int
  second :: int
  microsecond :: int

record timedelta =
  days :: int
  seconds :: int
  microseconds :: int

definition MAXORDINAL :: int where
  "MAXORDINAL = 3652059"

definition is_leap :: "int \<Rightarrow> bool" where
  "is_leap y = (y mod 4 = 0 \<and> (y mod 100 \<noteq> 0 \<or> y mod 400 = 0))"

definition days_before_year :: "int \<Rightarrow> int" where
  "days_before_year y = (let p = y - 1 in p * 365 + p div 4 - p div 100 + p div 400)"

definition DAYS_IN_MONTH :: "int \<Rightarrow> int" where
  "DAYS_IN_MONTH m =
     (if m = 2 then 28 else if m = 4 \<or> m = 6 \<or> m = 9 \<or> m = 11 then 30 else 31)"

definition DAYS_BEFORE_MONTH :: "int \<Rightarrow> int" where
  "DAYS_BEFORE_MONTH m =
     (if m = 1 then 0 else if m = 2 then 31 else if m = 3 then 59 else if m = 4 then 90
      else if m = 5 then 120 else if m = 6 then 151 else if m = 7 then 181
      else if m = 8 then 212 else if m = 9 then 243 else if m = 10 then 273
      else if m = 11 then 304 else 334)"

definition days_in_month :: "int \<Rightarrow> int \<Rightarrow> int" where
  "days_in_month y m = (if m = 2 \<and> is_leap y then 29 else DAYS_IN_MONTH m)"

definition days_before_month :: "int \<Rightarrow> int \<Rightarrow> int" where
  "days_before_month y m = DAYS_BEFORE_MONTH m + (if m > 2 \<and> is_leap y then 1 else 0)"

definition ymd2ord :: "int \<Rightarrow> int \<Rightarrow> int \<Rightarrow> int" where
  "ymd2ord y m d = days_before_year y + days_before_month y m + d"

definition ord2ymd :: "int \<Rightarrow> int \<times> int \<times> int" where
  "ord2ymd ordinal =
     (let n = ordinal - 1;
          n400 = n div 146097; n = n mod 146097;
          n100 = n div 36524; n = n mod 36524;
          n4 = n div 1461; n = n mod 1461;
          n1 = n div 365; n = n mod 365;
          y = n400 * 400 + 1 + n100 * 100 + n4 * 4 + n1
      in if n1 = 4 \<or> n100 = 4 then (y - 1, 12, 31)
         else
           let leapyear = (n1 = 3 \<and> (n4 \<noteq> 24 \<or> n100 = 3));
               m = (n + 50) div 32;
               preceding = DAYS_BEFORE_MONTH m + (if m > 2 \<and> leapyear then 1 else 0)
           in if preceding > n
              then (let m' = m - 1;
                        preceding' = preceding
                          - (DAYS_IN_MONTH m' + (if m' = 2 \<and> leapyear then 1 else 0))
                    in (y, m', n - preceding' + 1))
              else (y, m, n - preceding + 1))"

text \<open>The class invariant of \<open>datetime\<close>: the constructor rejects every other field value.\<close>

definition valid_datetime :: "datetime \<Rightarrow> bool" where
  "valid_datetime t =
     (1 \<le> year t \<and> year t \<le> 9999 \<and> 1 \<le> month t \<and> month t \<le> 12
      \<and> 1 \<le> day t \<and> day t \<le> days_in_month (year t) (month t)
      \<and> 0 \<le> hour t \<and> hour t < 24 \<and> 0 \<le> minute t \<and> minute t < 60
      \<and> 0 \<le> second t \<and> second t < 60
      \<and> 0 \<le> microsecond t \<and> microsecond t < 1000000)"

definition toordinal :: "datetime \<Rightarrow> int" where
  "toordinal t = ymd2ord (year t) (month t) (day t)"

text \<open>\<open>weekday()\<close>: Monday is 0, Sunday is 6.\<close>

definition weekday :: "datetime \<Rightarrow> int" where
  "weekday t = (toordinal t + 6) mod 7"

text \<open>
  The \<open>timedelta\<close> constructor normalises its arguments (seconds into \<open>0..86399\<close>,
  microseconds into \<open>0..999999\<close>) and raises \<open>OverflowError\<close> beyond 999999999 days.
\<close>

definition new_timedelta :: "int \<Rightarrow> int \<Rightarrow> int \<Rightarrow> error + timedelta" where
  "new_timedelta d s us =
     (let s1 = s + us div 1000000;
          d1 = d + s1 div 86400
      in if \<bar>d1\<bar> > 999999999 then Inl OverflowError
         else Inr \<lparr>days = d1, seconds = s1 mod 86400, microseconds = us mod 1000000\<rparr>)"

text \<open>\<open>datetime + timedelta\<close>.\<close>

definition datetime_add :: "datetime \<Rightarrow> timedelta \<Rightarrow> error + datetime" where
  "datetime_add t td =
     (case new_timedelta (toordinal t + days td)
             (hour t * 3600 + minute t * 60 + second t + seconds td)
             (microsecond t + microseconds td) of
        Inl e \<Rightarrow> Inl e
      | Inr delta \<Rightarrow>
          if 0 < days delta \<and> days delta \<le> MAXORDINAL
          then (case ord2ymd (days delta) of
                  (y, m, d) \<Rightarrow>
                    Inr \<lparr>year = y, month = m, day = d,
                         hour = seconds delta div 3600,
                         minute = seconds delta mod 3600 div 60,
                         second = seconds delta mod 3600 mod 60,
                         microsecond = microseconds delta\<rparr>)
          else Inl OverflowError)"

text \<open>\<open>datetime - datetime\<close>, both naive.\<close>

definition datetime_sub :: "datetime \<Rightarrow> datetime \<Rightarrow> error + timedelta" where
  "datetime_sub a b =
     new_timedelta (toordinal a - toordinal b)
       ((second a + minute a * 60 + hour a * 3600) - (second b + minute b * 60 + hour b * 3600))
       (microsecond a - microsecond b)"

text \<open>\<open>a > b\<close> compares the field tuples lexicographically.\<close>

definition datetime_key :: "datetime \<Rightarrow> int \<times> int \<times> int \<times> int \<times> int \<times> int \<times> int" where
  "datetime_key t = (year t, month t, day t, hour t, minute t, second t, microsecond t)"

definition datetime_gt :: "datetime \<Rightarrow> datetime \<Rightarrow> bool" where
  "datetime_gt a b = (datetime_key b < datetime_key a)"

section \<open>Goal\<close>

record goal =
  name :: string
  deadline_days :: int
  created_at :: datetime
  completed :: bool
  failed :: bool

text \<open>
  \<open>Goal.__init__\<close>.  The last argument is the clock: what \<open>datetime.now()\<close> returns when
  the constructor reads it.  A \<open>datetime\<close> object is always truthy, so \<open>created_at or
  datetime.now()\<close> reads the clock exactly when \<open>created_at\<close> is \<open>None\<close>.
\<close>

definition Goal :: "string \<Rightarrow> int \<Rightarrow> datetime option \<Rightarrow> bool \<Rightarrow> bool \<Rightarrow> datetime \<Rightarrow> goal" where
  "Goal nm dd created c f now =
     \<lparr>name = nm, deadline_days = dd,
      created_at = (case created of None \<Rightarrow> now | Some t \<Rightarrow> t),
      completed = c, failed = f\<rparr>"

definition deadline_date :: "goal \<Rightarrow> error + datetime" where
  "deadline_date g =
     (case new_timedelta (deadline_days g) 0 0 of
        Inl e \<Rightarrow> Inl e
      | Inr td \<Rightarrow> datetime_add (created_at g) td)"

definition days_left :: "goal \<Rightarrow> datetime \<Rightarrow> error + int" where
  "days_left g now =
     (case deadline_date g of
        Inl e \<Rightarrow> Inl e
      | Inr dl \<Rightarrow> (case datetime_sub dl now of Inl e \<Rightarrow> Inl e | Inr td \<Rightarrow> Inr (days td)))"

text \<open>
  \<open>check_failed\<close> returns its boolean together with the goal after the call.  The clock is
  read, and the deadline computed, only when neither flag is set.
\<close>

definition check_failed :: "goal \<Rightarrow> datetime \<Rightarrow> error + (bool \<times> goal)" where
  "check_failed g now =
     (if \<not> completed g \<and> \<not> failed g
      then (case deadline_date g of
              Inl e \<Rightarrow> Inl e
            | Inr dl \<Rightarrow>
                if datetime_gt now dl then Inr (True, g\<lparr>failed := True\<rparr>)
                else Inr (False, g))
      else Inr (False, g))"

definition complete :: "goal \<Rightarrow> goal" where
  "complete g = (if \<not> failed g then g\<lparr>completed := True\<rparr> else g)"

text \<open>
  A history of calls on one goal.  Each \<open>check_failed\<close> call carries the clock value it
  reads; a call that raises leaves the goal as it was.
\<close>

datatype goal_call = Complete | CheckFailed datetime

fun goal_step :: "goal \<Rightarrow> goal_call \<Rightarrow> goal" where
  "goal_step g Complete = complete g"
| "goal_step g (CheckFailed now) =
     (case check_failed g now of Inl e \<Rightarrow> g | Inr (b, g') \<Rightarrow> g')"

definition goal_run :: "goal \<Rightarrow> goal_call list \<Rightarrow> goal" where
  "goal_run g calls = foldl goal_step g calls"

text \<open>The booleans returned by successive \<open>check_failed\<close> calls at the given clock values.\<close>

fun check_failed_results :: "goal \<Rightarrow> datetime list \<Rightarrow> (error + bool) list \<times> goal" where
  "check_failed_results g [] = ([], g)"
| "check_failed_results g (now # rest) =
     (case check_failed g now of
        Inl e \<Rightarrow> (case check_failed_results g rest of (rs, g') \<Rightarrow> (Inl e # rs, g'))
      | Inr (b, g1) \<Rightarrow> (case check_failed_results g1 rest of (rs, g') \<Rightarrow> (Inr b # rs, g')))"

section \<open>Decimal formatting and parsing\<close>

definition digit_char :: "nat \<Rightarrow> char" where
  "digit_char n = char_of (48 + n)"

definition is_digit :: "char \<Rightarrow> bool" where
  "is_digit c = (48 \<le> (of_char c :: nat) \<and> (of_char c :: nat) \<le> 57)"

definition digit_val :: "char \<Rightarrow> nat" where
  "digit_val c = of_char c - 48"

fun dec :: "nat \<Rightarrow> string" where
  "dec n = (if n < 10 then [digit_char n] else dec (n div 10) @ [digit_char (n mod 10)])"

declare dec.simps [simp del]

text \<open>The format \<open>%0wd\<close>: at least \<open>w\<close> characters, zero-padded, the sign counted in.\<close>

definition zfill :: "nat \<Rightarrow> string \<Rightarrow> string" where
  "zfill w s = replicate (w - length s) (CHR ''0'') @ s"

definition fmt_d :: "nat \<Rightarrow> int \<Rightarrow> string" where
  "fmt_d w n = (if n < 0 then CHR ''-'' # zfill (w - 1) (dec (nat (- n))) else zfill w (dec (nat n)))"

definition parse_digits :: "string \<Rightarrow> nat option" where
  "parse_digits s =
     (if s \<noteq> [] \<and> list_all is_digit s
      then Some (foldl (\<lambda>a c. 10 * a + digit_val c) 0 s) else None)"

text \<open>\<open>str(d)\<close> of a date, and \<open>isoformat()\<close> of a naive \<open>datetime\<close>.\<close>

definition date_str :: "datetime \<Rightarrow> string" where
  "date_str t = fmt_d 4 (year t) @ ''-'' @ fmt_d 2 (month t) @ ''-'' @ fmt_d 2 (day t)"

definition isoformat :: "datetime \<Rightarrow> string" where
  "isoformat t =
     date_str t @ ''T'' @ fmt_d 2 (hour t) @ '':'' @ fmt_d 2 (minute t) @ '':''
       @ fmt_d 2 (second t)
       @ (if microsecond t \<noteq> 0 then ''.'' @ fmt_d 6 (microsecond t) else [])"

text \<open>
  \<open>datetime.fromisoformat\<close> on the two shapes that \<open>isoformat\<close> writes for a naive value,
  \<open>YYYY-MM-DDTHH:MM:SS\<close> and \<open>YYYY-MM-DDTHH:MM:SS.ffffff\<close>.  Which other strings are accepted
  differs between Python versions; they are reported as \<open>Unmodelled\<close>.
\<close>

definition fromisoformat :: "string \<Rightarrow> error + datetime" where
  "fromisoformat s =
     (let n = length s in
      if (n = 19 \<or> n = 26) \<and> s ! 4 = CHR ''-'' \<and> s ! 7 = CHR ''-'' \<and> s ! 10 = CHR ''T''
         \<and> s ! 13 = CHR '':'' \<and> s ! 16 = CHR '':'' \<and> (if n = 26 then s ! 19 = CHR ''.'' else True)
      then
        (case (parse_digits (take 4 s), parse_digits (take 2 (drop 5 s)),
               parse_digits (take 2 (drop 8 s)), parse_digits (take 2 (drop 11 s)),
               parse_digits (take 2 (drop 14 s)), parse_digits (take 2 (drop 17 s)),
               (if n = 26 then parse_digits (drop 20 s) else Some 0)) of
           (Some y, Some m, Some d, Some hh, Some mm, Some ss, Some us) \<Rightarrow>
             (let t = \<lparr>year = int y, month = int m, day = int d, hour = int hh,
                       minute = int mm, second = int ss, microsecond = int us\<rparr>
              in if valid_datetime t then Inr t else Inl ValueError)
         | _ \<Rightarrow> Inl ValueError)
      else Inl Unmodelled)"

section \<open>DailyTask\<close>

record daily_task =
  task_name :: string
  days_of_week :: "int list"
  completed_dates :: "string list"

text \<open>\<open>DailyTask.__init__\<close>: \<open>completed_dates or []\<close> replaces \<open>None\<close> and the empty list.\<close>

definition DailyTask :: "string \<Rightarrow> int list \<Rightarrow> string list option \<Rightarrow> daily_task" where
  "DailyTask nm dow cds =
     \<lparr>task_name = nm, days_of_week = dow,
      completed_dates = (case cds of None \<Rightarrow> [] | Some l \<Rightarrow> if l = [] then [] else l)\<rparr>"

definition is_active_today :: "daily_task \<Rightarrow> datetime \<Rightarrow> bool" where
  "is_active_today t now = (weekday now \<in> set (days_of_week t))"

definition is_completed_today :: "daily_task \<Rightarrow> datetime \<Rightarrow> bool" where
  "is_completed_today t now = (date_str now \<in> set (completed_dates t))"

text \<open>
  \<open>complete_today\<close> reads the clock twice: \<open>now1\<close> for \<open>today_str\<close>, then \<open>now2\<close> inside
  \<open>is_active_today\<close>, which is evaluated only when the string is not yet in the log.
\<close>

definition complete_today :: "daily_task \<Rightarrow> datetime \<Rightarrow> datetime \<Rightarrow> daily_task" where
  "complete_today t now1 now2 =
     (let today_str = date_str now1 in
      if today_str \<notin> set (completed_dates t) \<and> is_active_today t now2
      then t\<lparr>completed_dates := completed_dates t @ [today_str]\<rparr>
      else t)"

definition same_day :: "datetime \<Rightarrow> datetime \<Rightarrow> bool" where
  "same_day a b = (year a = year b \<and> month a = month b \<and> day a = day b)"

text \<open>A history of \<open>complete_today\<close> calls, each with its two clock readings.\<close>

definition complete_today_run :: "daily_task \<Rightarrow> (datetime \<times> datetime) list \<Rightarrow> daily_task" where
  "complete_today_run t reads = foldl (\<lambda>t (now1, now2). complete_today t now1 now2) t reads"

section \<open>JSON values and the snapshot\<close>

text \<open>
  What \<open>json.load\<close> returns and \<open>json.dump\<close> accepts: \<open>None\<close>, booleans, integers, strings,
  lists and dictionaries with string keys (a list of items in insertion order, keys
  distinct).  Numbers with a fraction or an exponent are left out; no modelled operation
  writes one.
\<close>

datatype json =
    JNull | JBool bool | JInt int | JStr string
  | JList "json list" | JObj "(string \<times> json) list"

definition bind_err :: "error + 'a \<Rightarrow> ('a \<Rightarrow> error + 'b) \<Rightarrow> error + 'b" where
  "bind_err r f = (case r of Inl e \<Rightarrow> Inl e | Inr x \<Rightarrow> f x)"

text \<open>\<open>data[key]\<close> with a string key.\<close>

definition getitem :: "json \<Rightarrow> string \<Rightarrow> error + json" where
  "getitem data k =
     (case data of
        JObj kvs \<Rightarrow> (case map_of kvs k of None \<Rightarrow> Inl KeyError | Some v \<Rightarrow> Inr v)
      | _ \<Rightarrow> Inl TypeError)"

text \<open>\<open>data.get(key, [])\<close>: only a dictionary has the method.\<close>

definition get_or_empty :: "json \<Rightarrow> string \<Rightarrow> error + json" where
  "get_or_empty data k =
     (case data of
        JObj kvs \<Rightarrow> (case map_of kvs k of None \<Rightarrow> Inr (JList []) | Some v \<Rightarrow> Inr v)
      | _ \<Rightarrow> Inl AttributeError)"

text \<open>What a \<open>for\<close> loop over the value visits.\<close>

definition iterate :: "json \<Rightarrow> error + json list" where
  "iterate v =
     (case v of
        JList xs \<Rightarrow> Inr xs
      | JObj kvs \<Rightarrow> Inr (map (\<lambda>kv. JStr (fst kv)) kvs)
      | JStr s \<Rightarrow> Inr (map (\<lambda>c. JStr [c]) s)
      | _ \<Rightarrow> Inl TypeError)"

definition falsy :: "json \<Rightarrow> bool" where
  "falsy v =
     (case v of JNull \<Rightarrow> True | JBool b \<Rightarrow> \<not> b | JInt n \<Rightarrow> n = 0 | JStr s \<Rightarrow> s = []
      | JList xs \<Rightarrow> xs = [] | JObj kvs \<Rightarrow> kvs = [])"

text \<open>
  The records above give every field the type of its annotation.  The source stores
  whatever the dictionary holds; a value of another type has no counterpart in a record and
  is reported as \<open>Unmodelled\<close>, after every lookup and conversion that the source performs
  has succeeded.
\<close>

definition as_str :: "json \<Rightarrow> error + string" where
  "as_str v = (case v of JStr s \<Rightarrow> Inr s | _ \<Rightarrow> Inl Unmodelled)"

definition as_int :: "json \<Rightarrow> error + int" where
  "as_int v = (case v of JInt n \<Rightarrow> Inr n | _ \<Rightarrow> Inl Unmodelled)"

definition as_bool :: "json \<Rightarrow> error + bool" where
  "as_bool v = (case v of JBool b \<Rightarrow> Inr b | _ \<Rightarrow> Inl Unmodelled)"

fun collect :: "(error + 'a) list \<Rightarrow> error + 'a list" where
  "collect [] = Inr []"
| "collect (r # rs) =
     (case r of Inl e \<Rightarrow> Inl e
      | Inr x \<Rightarrow> (case collect rs of Inl e \<Rightarrow> Inl e | Inr xs \<Rightarrow> Inr (x # xs)))"

definition as_list :: "(json \<Rightarrow> error + 'a) \<Rightarrow> json \<Rightarrow> error + 'a list" where
  "as_list f v = (case v of JList xs \<Rightarrow> collect (map f xs) | _ \<Rightarrow> Inl Unmodelled)"

definition goal_to_dict :: "goal \<Rightarrow> json" where
  "goal_to_dict g =
     JObj [(''name'', JStr (name g)),
           (''deadline_days'', JInt (deadline_days g)),
           (''created_at'', JStr (isoformat (created_at g))),
           (''completed'', JBool (completed g)),
           (''failed'', JBool (failed g))]"

text \<open>
  \<open>Goal.from_dict\<close>.  \<open>created_at\<close> is always passed, so the constructor does not read the
  clock; \<open>fromisoformat\<close> raises \<open>TypeError\<close> on anything but a string.
\<close>

definition goal_from_dict :: "json \<Rightarrow> error + goal" where
  "goal_from_dict data =
     bind_err (getitem data ''name'') (\<lambda>nm.
     bind_err (getitem data ''deadline_days'') (\<lambda>dd.
     bind_err (getitem data ''created_at'') (\<lambda>ca.
     bind_err (case ca of JStr s \<Rightarrow> fromisoformat s | _ \<Rightarrow> Inl TypeError) (\<lambda>created.
     bind_err (getitem data ''completed'') (\<lambda>c.
     bind_err (getitem data ''failed'') (\<lambda>f.
     bind_err (as_str nm) (\<lambda>nm'.
     bind_err (as_int dd) (\<lambda>dd'.
     bind_err (as_bool c) (\<lambda>c'.
     bind_err (as_bool f) (\<lambda>f'.
       Inr (Goal nm' dd' (Some created) c' f' created)))))))))))"

definition task_to_dict :: "daily_task \<Rightarrow> json" where
  "task_to_dict t =
     JObj [(''name'', JStr (task_name t)),
           (''days_of_week'', JList (map JInt (days_of_week t))),
           (''completed_dates'', JList (map JStr (completed_dates t)))]"

definition task_from_dict :: "json \<Rightarrow> error + daily_task" where
  "task_from_dict data =
     bind_err (getitem data ''name'') (\<lambda>nm.
     bind_err (getitem data ''days_of_week'') (\<lambda>dow.
     bind_err (getitem data ''completed_dates'') (\<lambda>cds.
     bind_err (as_str nm) (\<lambda>nm'.
     bind_err (as_list as_int dow) (\<lambda>dow'.
     bind_err (if falsy cds then Inr None
               else bind_err (as_list as_str cds) (\<lambda>l. Inr (Some l))) (\<lambda>cds'.
       Inr (DailyTask nm' dow' cds')))))))"

section \<open>DataManager\<close>

text \<open>
  The file \<open>goals_data.json\<close>: absent, present but not JSON, or holding a JSON value.
  \<open>json.dump\<close> followed by \<open>json.load\<close> gives back an equal value for every value of type
  \<open>json\<close>, so the text in the file is not modelled.
\<close>

datatype data_file = Missing | Garbled | Snapshot json

definition save_data :: "goal list \<Rightarrow> daily_task list \<Rightarrow> data_file" where
  "save_data gs ts =
     Snapshot (JObj [(''goals'', JList (map goal_to_dict gs)),
                     (''daily_tasks'', JList (map task_to_dict ts))])"

definition load_data :: "data_file \<Rightarrow> error + (goal list \<times> daily_task list)" where
  "load_data f =
     (case f of
        Missing \<Rightarrow> Inr ([], [])
      | Garbled \<Rightarrow> Inl JSONDecodeError
      | Snapshot data \<Rightarrow>
          bind_err (get_or_empty data ''goals'') (\<lambda>gv.
          bind_err (iterate gv) (\<lambda>gl.
          bind_err (collect (map goal_from_dict gl)) (\<lambda>gs.
          bind_err (get_or_empty data ''daily_tasks'') (\<lambda>tv.
          bind_err (iterate tv) (\<lambda>tl.
          bind_err (collect (map task_from_dict tl)) (\<lambda>ts.
            Inr (gs, ts))))))))"

section \<open>Floating point\<close>

text \<open>
  A Python \<open>float\<close> is an IEEE 754 binary64 value: a finite one is given by the rational it
  denotes (the sign of zero is not tracked; \<open>0.0 == -0.0\<close> in Python).  \<open>round_double\<close>
  rounds a rational to the nearest such value, ties to the even significand: 53 significant
  bits, least exponent \<open>-1074\<close> (subnormals), overflow from \<open>2^1024\<close> on.
\<close>

datatype pyfloat = Finite rat | PosInf | NegInf | NaN

fun bit_length :: "nat \<Rightarrow> nat" where
  "bit_length n = (if n = 0 then 0 else Suc (bit_length (n div 2)))"

declare bit_length.simps [simp del]

definition pow2 :: "int \<Rightarrow> rat" where
  "pow2 k = (if 0 \<le> k then 2 ^ nat k else 1 / 2 ^ nat (- k))"

definition floor_log2 :: "rat \<Rightarrow> int" where
  "floor_log2 x =
     (if 1 \<le> x then int (bit_length (nat \<lfloor>x\<rfloor>)) - 1
      else - int (bit_length (nat (\<lceil>1 / x\<rceil> - 1))))"

definition round_half_even :: "rat \<Rightarrow> int" where
  "round_half_even x =
     (let f = \<lfloor>x\<rfloor>; d = x - of_int f
      in if d < 1 / 2 then f else if 1 / 2 < d then f + 1
         else if even f then f else f + 1)"

definition round_double :: "rat \<Rightarrow> pyfloat" where
  "round_double x =
     (if x = 0 then Finite 0
      else
        let a = \<bar>x\<bar>;
            k = max (floor_log2 a - 52) (- 1074);
            r = of_int (round_half_even (a / pow2 k)) * pow2 k
        in if pow2 1024 \<le> r then (if 0 < x then PosInf else NegInf)
           else Finite (if 0 < x then r else - r))"

text \<open>
  \<open>a / b\<close> on two \<open>int\<close>s: the correctly rounded quotient, \<open>ZeroDivisionError\<close> for a zero
  divisor, \<open>OverflowError\<close> when the quotient is too large for a float.
\<close>

definition true_div :: "int \<Rightarrow> int \<Rightarrow> error + pyfloat" where
  "true_div a b =
     (if b = 0 then Inl ZeroDivisionError
      else (case round_double (of_int a / of_int b) of
              Finite r \<Rightarrow> Inr (Finite r)
            | _ \<Rightarrow> Inl OverflowError))"

text \<open>\<open>x * y\<close> on two floats; an overflow gives an infinity, not an exception.\<close>

definition float_sign :: "pyfloat \<Rightarrow> int" where
  "float_sign x =
     (case x of Finite r \<Rightarrow> sgn \<lfloor>sgn r\<rfloor> | PosInf \<Rightarrow> 1 | NegInf \<Rightarrow> - 1 | NaN \<Rightarrow> 0)"

definition float_mul :: "pyfloat \<Rightarrow> pyfloat \<Rightarrow> pyfloat" where
  "float_mul x y =
     (case (x, y) of
        (Finite a, Finite b) \<Rightarrow> round_double (a * b)
      | (NaN, _) \<Rightarrow> NaN
      | (_, NaN) \<Rightarrow> NaN
      | _ \<Rightarrow> (let s = float_sign x * float_sign y
               in if s = 0 then NaN else if 0 < s then PosInf else NegInf))"

text \<open>\<open>DailyTask.completion_rate\<close>; the literal \<open>100\<close> is converted to the float \<open>100.0\<close>.\<close>

definition completion_rate :: "daily_task \<Rightarrow> int \<Rightarrow> error + pyfloat" where
  "completion_rate t weeks =
     (let possible_days = int (length (days_of_week t)) * weeks in
      if possible_days = 0 then Inr (Finite 0)
      else bind_err (true_div (int (length (completed_dates t))) possible_days)
             (\<lambda>q. Inr (float_mul q (Finite 100))))"

section \<open>GoalManager\<close>

text \<open>
  Objects have identity: the manager's lists hold references, and the two heaps give the
  object behind each reference.  \<open>next_ref\<close> is the first reference not yet allocated.
  \<open>data_file\<close> is the file that \<open>DataManager\<close> reads and writes.
\<close>

type_synonym ref = nat

record manager =
  goals :: "ref list"
  daily_tasks :: "ref list"
  goal_heap :: "ref \<Rightarrow> goal"
  task_heap :: "ref \<Rightarrow> daily_task"
  next_ref :: ref
  data_file :: data_file

definition manager_save_data :: "manager \<Rightarrow> manager" where
  "manager_save_data st =
     st\<lparr>data_file := save_data (map (goal_heap st) (goals st))
                        (map (task_heap st) (daily_tasks st))\<rparr>"

text \<open>\<open>add_goal\<close>: the new \<open>Goal\<close> object reads the clock in its constructor.\<close>

definition add_goal :: "manager \<Rightarrow> string \<Rightarrow> int \<Rightarrow> datetime \<Rightarrow> error + manager" where
  "add_goal st nm dd now =
     (let r = next_ref st;
          st1 = st\<lparr>goal_heap := (goal_heap st)(r := Goal nm dd None False False now),
                   next_ref := Suc r\<rparr>;
          st2 = st1\<lparr>goals := goals st1 @ [r]\<rparr>
      in Inr (manager_save_data st2))"

text \<open>
  \<open>delete_goal\<close>: \<open>list.remove\<close> deletes the first element equal to its argument and raises
  \<open>ValueError\<close> when there is none.  \<open>Goal\<close> defines no \<open>__eq__\<close>, so equal means identical.
\<close>

definition delete_goal :: "manager \<Rightarrow> ref \<Rightarrow> error + manager" where
  "delete_goal st r =
     (if r \<in> set (goals st)
      then Inr (manager_save_data (st\<lparr>goals := remove1 r (goals st)\<rparr>))
      else Inl ValueError)"

datatype number = PyInt int | PyFloat pyfloat

record stats =
  stats_total :: int
  stats_completed :: int
  stats_failed :: int
  stats_in_progress :: int
  stats_completion_rate :: number

definition goals_stats :: "goal list \<Rightarrow> error + stats" where
  "goals_stats gs =
     (let total = int (length gs);
          ncompleted = int (length (filter completed gs));
          nfailed = int (length (filter failed gs));
          in_progress = total - ncompleted - nfailed
      in bind_err (if total > 0
                   then bind_err (true_div ncompleted total)
                          (\<lambda>q. Inr (PyFloat (float_mul q (Finite 100))))
                   else Inr (PyInt 0))
           (\<lambda>rate. Inr \<lparr>stats_total = total, stats_completed = ncompleted,
                         stats_failed = nfailed, stats_in_progress = in_progress,
                         stats_completion_rate = rate\<rparr>))"

definition get_goals_stats :: "manager \<Rightarrow> error + stats" where
  "get_goals_stats st = goals_stats (map (goal_heap st) (goals st))"


section \<open>Sample values\<close>

text \<open>Clock readings and goals at which the theorems below are evaluated.\<close>

definition T0 :: datetime where
  "T0 = \<lparr>year = 2026, month = 11, day = 4, hour = 10, minute = 0, second = 0, microsecond = 5\<rparr>"

definition T1 :: datetime where
  "T1 = \<lparr>year = 2026, month = 11, day = 4, hour = 10, minute = 0, second = 1, microsecond = 5\<rparr>"

definition empty_manager :: manager where
  "empty_manager =
     \<lparr>goals = [], daily_tasks = [],
      goal_heap = (\<lambda>r. Goal [] 0 None False False T0),
      task_heap = (\<lambda>r. DailyTask [] [] None),
      next_ref = 0, data_file = Missing\<rparr>"

definition Tuesday :: datetime where
  "Tuesday = \<lparr>year = 2026, month = 11, day = 3, hour = 9, minute = 30, second = 0, microsecond = 0\<rparr>"

definition Exercise :: daily_task where
  "Exercise = DailyTask ''Exercise'' [0, 2, 4] None"

text \<open>A dictionary as \<open>to_dict\<close> writes it, edited to carry both flags.\<close>

definition Both_Flags :: json where
  "Both_Flags =
     JObj [(''name'', JStr ''Ship report''), (''deadline_days'', JInt 7),
           (''created_at'', JStr ''2026-11-04T10:00:00.000005''),
           (''completed'', JBool True), (''failed'', JBool True)]"

text \<open>A manager holding two goals that agree in every field but are two objects.\<close>

definition Two_Goals :: manager where
  "Two_Goals =
     \<lparr>goals = [0, 1], daily_tasks = [],
      goal_heap = (\<lambda>r. Goal ''Read'' 7 None False False T0),
      task_heap = (\<lambda>r. DailyTask [] [] None),
      next_ref = 2, data_file = Missing\<rparr>"

(*DEFS-END*)

section \<open>The goal state machine\<close>

lemmas calendar_defs = ord2ymd_def ymd2ord_def toordinal_def days_before_year_def
  days_before_month_def DAYS_BEFORE_MONTH_def DAYS_IN_MONTH_def is_leap_def MAXORDINAL_def
  new_timedelta_def datetime_add_def datetime_sub_def datetime_gt_def datetime_key_def

lemma complete_keeps_exclusive:
  "\<not> (completed g \<and> failed g) \<Longrightarrow> \<not> (completed (complete g) \<and> failed (complete g))"
  by (auto simp: complete_def)

lemma check_failed_cases:
  "check_failed g now = Inr (b, g') \<Longrightarrow>
     (g' = g \<and> \<not> b) \<or> (g' = g\<lparr>failed := True\<rparr> \<and> b \<and> \<not> completed g \<and> \<not> failed g)"
  by (auto simp: check_failed_def split: if_splits sum.splits)

lemma goal_step_exclusive:
  "\<not> (completed g \<and> failed g) \<Longrightarrow> \<not> (completed (goal_step g c) \<and> failed (goal_step g c))"
proof (cases c)
  case Complete
  assume "\<not> (completed g \<and> failed g)"
  with Complete show ?thesis by (auto simp: complete_def)
next
  case (CheckFailed now)
  assume inv: "\<not> (completed g \<and> failed g)"
  show ?thesis
  proof (cases "check_failed g now")
    case (Inl e)
    with CheckFailed inv show ?thesis by simp
  next
    case (Inr r)
    obtain b g' where r: "r = (b, g')" by (cases r)
    from check_failed_cases[OF Inr[unfolded r]] CheckFailed Inr r inv
    show ?thesis by auto
  qed
qed

lemma goal_step_failed:
  "failed g \<Longrightarrow> failed (goal_step g c)"
  by (cases c) (auto simp: complete_def check_failed_def split: sum.splits)

lemma goal_run_exclusive:
  "\<not> (completed g \<and> failed g) \<Longrightarrow> \<not> (completed (goal_run g cs) \<and> failed (goal_run g cs))"
  unfolding goal_run_def
proof (induction cs arbitrary: g)
  case Nil
  then show ?case by simp
next
  case (Cons c cs)
  from goal_step_exclusive[OF Cons.prems] have "\<not> (completed (goal_step g c) \<and> failed (goal_step g c))" .
  from Cons.IH[OF this] show ?case by simp
qed

lemma goal_run_failed:
  "failed g \<Longrightarrow> failed (goal_run g cs)"
  unfolding goal_run_def
  by (induction cs arbitrary: g) (simp_all add: goal_step_failed)

text \<open>
  Claim C1.  Start from a goal as the constructor makes it (both flags false) and apply any
  sequence of \<open>complete()\<close> and \<open>check_failed()\<close> calls, each \<open>check_failed()\<close> at an
  arbitrary clock value.  The goal reached never has \<open>completed\<close> and \<open>failed\<close> both true;
  if it has \<open>failed\<close> then \<open>complete()\<close> changes nothing and \<open>completed\<close> stays false; and
  \<open>failed\<close> stays true under every further sequence of calls.
\<close>

theorem goal_flags_never_both:
  "(let g = goal_run (Goal nm dd created False False clock) calls in
      \<not> (completed g \<and> failed g)
      \<and> (failed g \<longrightarrow> complete g = g \<and> \<not> completed (complete g))
      \<and> (failed g \<longrightarrow> failed (goal_run g later)))"
proof -
  define g where "g = goal_run (Goal nm dd created False False clock) calls"
  have "\<not> (completed (Goal nm dd created False False clock) \<and> failed (Goal nm dd created False False clock))"
    by (simp add: Goal_def)
  then have excl: "\<not> (completed g \<and> failed g)"
    unfolding g_def by (rule goal_run_exclusive)
  have noop: "failed g \<longrightarrow> complete g = g \<and> \<not> completed (complete g)"
    using excl by (auto simp: complete_def)
  have keep: "failed g \<longrightarrow> failed (goal_run g later)"
    by (simp add: goal_run_failed)
  from excl noop keep show ?thesis
    unfolding g_def Let_def by blast
qed

lemma dl0: "deadline_date (Goal ''Ship report'' 0 None False False T0) = Inr T0"
  by (simp add: deadline_date_def Goal_def T0_def calendar_defs Let_def)

lemma cf0: "check_failed (Goal ''Ship report'' 0 None False False T0) T1 = Inr (True, (Goal ''Ship report'' 0 None False False T0)\<lparr>failed := True\<rparr>)"
  by (simp add: check_failed_def dl0) (simp add: Goal_def T0_def T1_def datetime_gt_def datetime_key_def)

theorem goal_flags_never_both_witness:
  "failed (goal_run (Goal ''Ship report'' 0 None False False T0) [CheckFailed T1])
   \<and> \<not> completed (complete (goal_run (Goal ''Ship report'' 0 None False False T0) [CheckFailed T1]))
   \<and> failed (goal_run (goal_run (Goal ''Ship report'' 0 None False False T0) [CheckFailed T1]) [Complete])"
proof -
  have f: "failed (goal_run (Goal ''Ship report'' 0 None False False T0) [CheckFailed T1])"
    by (simp add: goal_run_def cf0)
  from f goal_flags_never_both[of "''Ship report''" 0 None T0 "[CheckFailed T1]" "[Complete]"]
  show ?thesis by (simp add: Let_def)
qed

lemma check_failed_terminal:
  "completed g \<or> failed g \<Longrightarrow> check_failed g now = Inr (False, g)"
  by (auto simp: check_failed_def)

lemma check_failed_results_terminal:
  "completed g \<or> failed g \<Longrightarrow>
     check_failed_results g ts = (map (\<lambda>t. Inr False) ts, g)"
  by (induction ts) (simp_all add: check_failed_terminal)

lemma check_failed_pending:
  assumes "\<not> completed g" "\<not> failed g" "deadline_date g = Inr dl"
  shows "check_failed g now =
           (if datetime_gt now dl then Inr (True, g\<lparr>failed := True\<rparr>) else Inr (False, g))"
  using assms by (simp add: check_failed_def)

text \<open>
  Claim C2, amended.  On a goal with a flag set, \<open>check_failed()\<close> returns false and changes
  nothing.  When the deadline date \<open>created_at + deadline_days\<close> days is a representable
  \<open>datetime\<close>, \<open>check_failed()\<close> returns true and sets \<open>failed\<close> if and only if both flags are
  false and the clock is strictly after the deadline date, and in every other case returns
  false and changes nothing; a pending goal past its deadline therefore answers true to the
  first call and false to every later one, with \<open>failed\<close> true from then on.  When the
  deadline date is not representable and both flags are false, the call raises what the date
  arithmetic raises and changes nothing.
\<close>

theorem check_failed_when_representable:
  "(completed g \<or> failed g \<longrightarrow> check_failed g now = Inr (False, g))
   \<and> (\<forall>dl. deadline_date g = Inr dl \<longrightarrow>
         ((check_failed g now = Inr (True, g\<lparr>failed := True\<rparr>))
            = (\<not> completed g \<and> \<not> failed g \<and> datetime_gt now dl))
         \<and> (\<not> (\<not> completed g \<and> \<not> failed g \<and> datetime_gt now dl)
              \<longrightarrow> check_failed g now = Inr (False, g))
         \<and> (\<not> completed g \<and> \<not> failed g \<and> datetime_gt now dl
              \<longrightarrow> check_failed_results g (now # later)
                    = (Inr True # map (\<lambda>t. Inr False) later, g\<lparr>failed := True\<rparr>)))
   \<and> (\<forall>e. \<not> completed g \<and> \<not> failed g \<and> deadline_date g = Inl e
         \<longrightarrow> check_failed g now = Inl e)"
proof (intro conjI allI impI)
  assume "completed g \<or> failed g"
  then show "check_failed g now = Inr (False, g)" by (rule check_failed_terminal)
next
  fix dl assume dl: "deadline_date g = Inr dl"
  show "(check_failed g now = Inr (True, g\<lparr>failed := True\<rparr>))
          = (\<not> completed g \<and> \<not> failed g \<and> datetime_gt now dl)"
  proof (cases "completed g \<or> failed g")
    case True
    then show ?thesis using check_failed_terminal[OF True, of now] by auto
  next
    case False
    then show ?thesis using check_failed_pending[OF _ _ dl, of now] by auto
  qed
next
  fix dl assume dl: "deadline_date g = Inr dl"
    and n: "\<not> (\<not> completed g \<and> \<not> failed g \<and> datetime_gt now dl)"
  show "check_failed g now = Inr (False, g)"
  proof (cases "completed g \<or> failed g")
    case True
    then show ?thesis by (rule check_failed_terminal)
  next
    case False
    with n have "\<not> datetime_gt now dl" by blast
    with False show ?thesis using check_failed_pending[OF _ _ dl, of now] by auto
  qed
next
  fix dl assume dl: "deadline_date g = Inr dl"
    and p: "\<not> completed g \<and> \<not> failed g \<and> datetime_gt now dl"
  from p have first: "check_failed g now = Inr (True, g\<lparr>failed := True\<rparr>)"
    using check_failed_pending[OF _ _ dl, of now] by auto
  have "check_failed_results (g\<lparr>failed := True\<rparr>) later
          = (map (\<lambda>t. Inr False) later, g\<lparr>failed := True\<rparr>)"
    by (rule check_failed_results_terminal) simp
  with first show "check_failed_results g (now # later)
          = (Inr True # map (\<lambda>t. Inr False) later, g\<lparr>failed := True\<rparr>)"
    by simp
next
  fix e assume "\<not> completed g \<and> \<not> failed g \<and> deadline_date g = Inl e"
  then show "check_failed g now = Inl e" by (simp add: check_failed_def)
qed

theorem check_failed_when_representable_witness:
  "deadline_date (Goal ''Ship report'' 0 None False False T0) = Inr T0
   \<and> datetime_gt T1 T0
   \<and> check_failed (Goal ''Ship report'' 0 None False False T0) T1
       = Inr (True, (Goal ''Ship report'' 0 None False False T0)\<lparr>failed := True\<rparr>)
   \<and> check_failed_results (Goal ''Ship report'' 0 None False False T0) [T1, T1, T0]
       = ([Inr True, Inr False, Inr False], (Goal ''Ship report'' 0 None False False T0)\<lparr>failed := True\<rparr>)
   \<and> check_failed (Goal ''Ship report'' 0 None False False T0) T0
       = Inr (False, Goal ''Ship report'' 0 None False False T0)
   \<and> check_failed (Goal ''Ship report'' 0 None True False T0) T1
       = Inr (False, Goal ''Ship report'' 0 None True False T0)
   \<and> deadline_date (Goal ''Ship report'' 3000000 None False False T0) = Inl OverflowError
   \<and> check_failed (Goal ''Ship report'' 3000000 None False False T0) T1 = Inl OverflowError"
proof -
  have gt: "datetime_gt T1 T0" and ngt: "\<not> datetime_gt T0 T0"
    by (simp_all add: T0_def T1_def datetime_gt_def datetime_key_def)
  have flags: "\<not> completed (Goal ''Ship report'' 0 None False False T0)"
      "\<not> failed (Goal ''Ship report'' 0 None False False T0)"
      "completed (Goal ''Ship report'' 0 None True False T0)"
      "\<not> completed (Goal ''Ship report'' 3000000 None False False T0)"
      "\<not> failed (Goal ''Ship report'' 3000000 None False False T0)"
    by (simp_all add: Goal_def)
  have ovf: "deadline_date (Goal ''Ship report'' 3000000 None False False T0) = Inl OverflowError"
    by (simp add: deadline_date_def Goal_def T0_def calendar_defs Let_def)
  let ?G = "Goal ''Ship report'' 0 None False False T0"
  have c1: "check_failed ?G T1 = Inr (True, ?G\<lparr>failed := True\<rparr>)"
    using gt flags dl0 check_failed_when_representable[of ?G T1 "[T1, T0]"] by blast
  have c2: "check_failed_results ?G [T1, T1, T0]
       = ([Inr True, Inr False, Inr False], ?G\<lparr>failed := True\<rparr>)"
    using gt flags dl0 check_failed_when_representable[of ?G T1 "[T1, T0]"]
    by (simp del: check_failed_results.simps)
  have c3: "check_failed ?G T0 = Inr (False, ?G)"
    using ngt dl0 check_failed_when_representable[of ?G T0 "[]"] by blast
  have c4: "check_failed (Goal ''Ship report'' 0 None True False T0) T1
       = Inr (False, Goal ''Ship report'' 0 None True False T0)"
    using flags check_failed_when_representable[of "Goal ''Ship report'' 0 None True False T0" T1 "[]"]
    by blast
  have c5: "check_failed (Goal ''Ship report'' 3000000 None False False T0) T1 = Inl OverflowError"
    using flags ovf
      check_failed_when_representable[of "Goal ''Ship report'' 3000000 None False False T0" T1 "[]"]
    by blast
  from dl0 gt c1 c2 c3 c4 ovf c5 show ?thesis by blast
qed

text \<open>
  Claim C2 as stated fails: a pending goal whose deadline lies after the year 9999 makes
  \<open>check_failed()\<close> raise instead of returning false.
\<close>

theorem check_failed_overflow_counterexample:
  "\<not> completed (Goal ''Ship report'' 3000000 None False False T0)
   \<and> \<not> failed (Goal ''Ship report'' 3000000 None False False T0)
   \<and> check_failed (Goal ''Ship report'' 3000000 None False False T0) T1 = Inl OverflowError"
  by (simp add: check_failed_def deadline_date_def Goal_def T0_def calendar_defs Let_def)

section \<open>Daily tasks\<close>

lemma same_day_date_str: "same_day a b \<Longrightarrow> date_str a = date_str b"
  by (simp add: same_day_def date_str_def)

lemma same_day_weekday: "same_day a b \<Longrightarrow> weekday a = weekday b"
  by (simp add: same_day_def weekday_def toordinal_def)

lemma complete_today_cases:
  "complete_today t now1 now2 =
     (if date_str now1 \<notin> set (completed_dates t) \<and> weekday now2 \<in> set (days_of_week t)
      then t\<lparr>completed_dates := completed_dates t @ [date_str now1]\<rparr> else t)"
  by (simp add: complete_today_def is_active_today_def Let_def)

lemma append_one_neq: "t\<lparr>completed_dates := completed_dates t @ [s]\<rparr> \<noteq> t"
proof
  assume "t\<lparr>completed_dates := completed_dates t @ [s]\<rparr> = t"
  then have "completed_dates (t\<lparr>completed_dates := completed_dates t @ [s]\<rparr>) = completed_dates t"
    by simp
  then show False by simp
qed

lemma complete_today_idem:
  "date_str now3 = date_str now1 \<Longrightarrow> weekday now4 = weekday now2 \<Longrightarrow>
     complete_today (complete_today t now1 now2) now3 now4 = complete_today t now1 now2"
  by (simp add: complete_today_cases)

lemma complete_today_distinct:
  "distinct (completed_dates t) \<Longrightarrow> distinct (completed_dates (complete_today t now1 now2))"
  by (simp add: complete_today_cases)

lemma complete_today_run_distinct:
  "distinct (completed_dates t) \<Longrightarrow> distinct (completed_dates (complete_today_run t reads))"
  unfolding complete_today_run_def
proof (induction reads arbitrary: t)
  case Nil
  then show ?case by simp
next
  case (Cons r reads)
  obtain a b where r: "r = (a, b)" by (cases r)
  from Cons.prems have "distinct (completed_dates (complete_today t a b))"
    by (rule complete_today_distinct)
  from Cons.IH[OF this] r show ?case by simp
qed

text \<open>
  Claim C3.  Let all clock readings of two successive \<open>complete_today()\<close> calls fall on one
  date.  The first call appends that date's string to the log if and only if the date's
  weekday is in \<open>days_of_week\<close> and the string is not yet in the log; otherwise it returns
  normally and changes nothing.  The second call changes nothing.  After both calls the date
  has exactly one entry when the first call appended it, and at most one entry whenever it
  had at most one before.  A task built by the constructor with no log, put through any
  sequence of calls at any clock readings, never holds a date twice.
\<close>

theorem complete_today_once_per_day:
  "same_day now1 now2 \<and> same_day now1 now3 \<and> same_day now1 now4 \<longrightarrow>
     ((complete_today t now1 now2 = t\<lparr>completed_dates := completed_dates t @ [date_str now1]\<rparr>)
        = (weekday now1 \<in> set (days_of_week t) \<and> date_str now1 \<notin> set (completed_dates t)))
     \<and> (\<not> (weekday now1 \<in> set (days_of_week t) \<and> date_str now1 \<notin> set (completed_dates t))
          \<longrightarrow> complete_today t now1 now2 = t)
     \<and> complete_today (complete_today t now1 now2) now3 now4 = complete_today t now1 now2
     \<and> (weekday now1 \<in> set (days_of_week t) \<and> date_str now1 \<notin> set (completed_dates t)
          \<longrightarrow> count_list (completed_dates (complete_today (complete_today t now1 now2) now3 now4))
                 (date_str now1) = 1)
     \<and> (count_list (completed_dates t) (date_str now1) \<le> 1
          \<longrightarrow> count_list (completed_dates (complete_today (complete_today t now1 now2) now3 now4))
                 (date_str now1) \<le> 1)
     \<and> distinct (completed_dates (complete_today_run (DailyTask nm dow None) reads))"
proof (intro impI conjI)
  assume sd: "same_day now1 now2 \<and> same_day now1 now3 \<and> same_day now1 now4"
  have w: "weekday now2 = weekday now1"
    using sd same_day_weekday[of now1 now2] by simp
  have w4: "weekday now4 = weekday now2"
    using sd same_day_weekday[of now1 now4] w by simp
  have d3: "date_str now3 = date_str now1"
    using sd same_day_date_str[of now1 now3] by simp
  show "(complete_today t now1 now2 = t\<lparr>completed_dates := completed_dates t @ [date_str now1]\<rparr>)
        = (weekday now1 \<in> set (days_of_week t) \<and> date_str now1 \<notin> set (completed_dates t))"
    using append_one_neq[of t "date_str now1"] by (auto simp: complete_today_cases w)
  show twice: "complete_today (complete_today t now1 now2) now3 now4 = complete_today t now1 now2"
    using d3 w4 by (rule complete_today_idem)
  {
    assume "\<not> (weekday now1 \<in> set (days_of_week t) \<and> date_str now1 \<notin> set (completed_dates t))"
    then show "complete_today t now1 now2 = t"
      by (auto simp: complete_today_cases w)
  }
  {
    assume "weekday now1 \<in> set (days_of_week t) \<and> date_str now1 \<notin> set (completed_dates t)"
    then show "count_list (completed_dates (complete_today (complete_today t now1 now2) now3 now4))
                 (date_str now1) = 1"
      unfolding twice by (simp add: complete_today_cases w)
  }
  {
    assume "count_list (completed_dates t) (date_str now1) \<le> 1"
    then show "count_list (completed_dates (complete_today (complete_today t now1 now2) now3 now4))
                 (date_str now1) \<le> 1"
      unfolding twice by (auto simp: complete_today_cases w)
  }
next
  have "distinct (completed_dates (DailyTask nm dow None))" by (simp add: DailyTask_def)
  then show "distinct (completed_dates (complete_today_run (DailyTask nm dow None) reads))"
    by (rule complete_today_run_distinct)
qed

lemma weekday_T0: "weekday T0 = 2"
  by (simp add: weekday_def T0_def calendar_defs Let_def)

lemma weekday_Tuesday: "weekday Tuesday = 1"
  by (simp add: weekday_def Tuesday_def calendar_defs Let_def)

theorem complete_today_once_per_day_witness:
  "same_day T0 T1 \<and> same_day T0 T0
   \<and> weekday T0 \<in> set (days_of_week Exercise) \<and> date_str T0 \<notin> set (completed_dates Exercise)
   \<and> complete_today Exercise T0 T1 = Exercise\<lparr>completed_dates := [date_str T0]\<rparr>
   \<and> complete_today (complete_today Exercise T0 T1) T0 T1 = complete_today Exercise T0 T1
   \<and> count_list (completed_dates (complete_today (complete_today Exercise T0 T1) T0 T1))
        (date_str T0) = 1
   \<and> same_day Tuesday Tuesday \<and> weekday Tuesday \<notin> set (days_of_week Exercise)
   \<and> complete_today Exercise Tuesday Tuesday = Exercise"
proof -
  have sd: "same_day T0 T1" "same_day T0 T0" "same_day Tuesday Tuesday"
    by (simp_all add: same_day_def T0_def T1_def)
  have act: "weekday T0 \<in> set (days_of_week Exercise)"
    and inact: "weekday Tuesday \<notin> set (days_of_week Exercise)"
    and fresh: "date_str T0 \<notin> set (completed_dates Exercise)"
    and log: "completed_dates Exercise = []"
    by (simp_all add: weekday_T0 weekday_Tuesday Exercise_def DailyTask_def)
  note th = complete_today_once_per_day[of T0 T1 T0 T1 Exercise "''Exercise''" "[0, 2, 4]" "[]"]
  note tu = complete_today_once_per_day[of Tuesday Tuesday Tuesday Tuesday Exercise
      "''Exercise''" "[0, 2, 4]" "[]"]
  have a: "complete_today Exercise T0 T1 = Exercise\<lparr>completed_dates := [date_str T0]\<rparr>"
    using th sd act fresh log by simp
  have b: "complete_today (complete_today Exercise T0 T1) T0 T1 = complete_today Exercise T0 T1"
    using th sd by blast
  have c: "count_list (completed_dates (complete_today (complete_today Exercise T0 T1) T0 T1))
        (date_str T0) = 1"
    using th sd act fresh by blast
  have d: "complete_today Exercise Tuesday Tuesday = Exercise"
    using tu sd inact by blast
  from sd act inact fresh a b c d show ?thesis by blast
qed

section \<open>The snapshot round trip\<close>

lemma digit_char_ok: "n < 10 \<Longrightarrow> is_digit (digit_char n) \<and> digit_val (digit_char n) = n"
  by (simp add: is_digit_def digit_val_def digit_char_def)

lemma zero_char: "is_digit (CHR ''0'') \<and> digit_val (CHR ''0'') = 0"
  by (simp add: is_digit_def digit_val_def)

lemma dec_digits: "list_all is_digit (dec n)"
proof (induction n rule: dec.induct)
  case (1 n)
  show ?case
  proof (cases "n < 10")
    case True
    then show ?thesis by (subst dec.simps) (simp add: digit_char_ok)
  next
    case False
    with 1 have "list_all is_digit (dec (n div 10))" by simp
    moreover have "is_digit (digit_char (n mod 10))" by (simp add: digit_char_ok)
    ultimately show ?thesis using False by (subst dec.simps) simp
  qed
qed

lemma dec_nonempty: "dec n \<noteq> []"
  by (subst dec.simps) simp

lemma dec_value: "foldl (\<lambda>a c. 10 * a + digit_val c) 0 (dec n) = n"
proof (induction n rule: dec.induct)
  case (1 n)
  show ?case
  proof (cases "n < 10")
    case True
    then show ?thesis by (subst dec.simps) (simp add: digit_char_ok)
  next
    case False
    with 1 have "foldl (\<lambda>a c. 10 * a + digit_val c) 0 (dec (n div 10)) = n div 10" by simp
    then show ?thesis using False by (subst dec.simps) (simp add: digit_char_ok)
  qed
qed

lemma dec_length: "0 < w \<Longrightarrow> n < 10 ^ w \<Longrightarrow> length (dec n) \<le> w"
proof (induction w arbitrary: n)
  case 0
  then show ?case by simp
next
  case (Suc w)
  show ?case
  proof (cases "n < 10")
    case True
    then show ?thesis by (subst dec.simps) simp
  next
    case False
    with Suc.prems have w: "0 < w" by (cases w) auto
    from Suc.prems have "n div 10 < 10 ^ w"
      by (simp add: less_mult_imp_div_less mult.commute)
    from Suc.IH[OF w this] False show ?thesis by (subst dec.simps) simp
  qed
qed

lemma foldl_zeros:
  "foldl (\<lambda>a c. 10 * a + digit_val c) 0 (replicate k (CHR ''0'') @ s)
     = foldl (\<lambda>a c. 10 * a + digit_val c) 0 s"
  by (induction k) (simp_all add: zero_char)

lemma list_all_zeros: "list_all is_digit (replicate k (CHR ''0''))"
  by (induction k) (simp_all add: zero_char)

lemma parse_zfill: "parse_digits (zfill w (dec n)) = Some n"
proof -
  have ne: "zfill w (dec n) \<noteq> []"
    by (simp add: zfill_def dec_nonempty)
  have dg: "list_all is_digit (zfill w (dec n))"
    by (simp add: zfill_def list_all_zeros dec_digits)
  have "foldl (\<lambda>a c. 10 * a + digit_val c) 0 (zfill w (dec n))
          = foldl (\<lambda>a c. 10 * a + digit_val c) 0 (dec n)"
    unfolding zfill_def by (rule foldl_zeros)
  then have vl: "foldl (\<lambda>a c. 10 * a + digit_val c) 0 (zfill w (dec n)) = n"
    by (simp only: dec_value)
  show ?thesis
    unfolding parse_digits_def using ne dg vl by simp
qed

lemma fmt_d_ok:
  assumes "0 \<le> n" "n < 10 ^ w" "0 < w"
  shows "length (fmt_d w n) = w" and "parse_digits (fmt_d w n) = Some (nat n)"
proof -
  from assms have "nat n < 10 ^ w"
    by (metis nat_less_iff nat_numeral nat_power_eq of_nat_numeral zero_le_numeral
        of_nat_power)
  with assms(3) have "length (dec (nat n)) \<le> w" by (rule dec_length)
  with assms(1) show "length (fmt_d w n) = w" by (simp add: fmt_d_def zfill_def)
  from assms(1) show "parse_digits (fmt_d w n) = Some (nat n)"
    by (simp add: fmt_d_def parse_zfill)
qed

lemma len2: "length s = 2 \<Longrightarrow> \<exists>a b. s = [a, b]"
  by (cases s; simp) (metis length_0_conv length_Suc_conv)

lemma len4: "length s = 4 \<Longrightarrow> \<exists>a b c d. s = [a, b, c, d]"
  by (simp add: numeral_eq_Suc length_Suc_conv) blast

lemma len6: "length s = 6 \<Longrightarrow> \<exists>a b c d e f. s = [a, b, c, d, e, f]"
  by (simp add: numeral_eq_Suc length_Suc_conv) blast

lemma days_in_month_le: "days_in_month y m \<le> 31"
  by (simp add: days_in_month_def DAYS_IN_MONTH_def)

lemma fromisoformat_isoformat:
  assumes v: "valid_datetime t"
  shows "fromisoformat (isoformat t) = Inr t"
proof -
  from v have r: "0 \<le> year t" "year t < 10 ^ 4" "0 \<le> month t" "month t < 10 ^ 2"
    "0 \<le> day t" "day t < 10 ^ 2" "0 \<le> hour t" "hour t < 10 ^ 2"
    "0 \<le> minute t" "minute t < 10 ^ 2" "0 \<le> second t" "second t < 10 ^ 2"
    "0 \<le> microsecond t" "microsecond t < 10 ^ 6"
    using days_in_month_le[of "year t" "month t"] by (simp_all add: valid_datetime_def)
  obtain y1 y2 y3 y4 where Y: "fmt_d 4 (year t) = [y1, y2, y3, y4]"
    using len4[OF fmt_d_ok(1)[OF r(1) r(2)]] by auto
  obtain m1 m2 where M: "fmt_d 2 (month t) = [m1, m2]"
    using len2[OF fmt_d_ok(1)[OF r(3) r(4)]] by auto
  obtain d1 d2 where D: "fmt_d 2 (day t) = [d1, d2]"
    using len2[OF fmt_d_ok(1)[OF r(5) r(6)]] by auto
  obtain h1 h2 where H: "fmt_d 2 (hour t) = [h1, h2]"
    using len2[OF fmt_d_ok(1)[OF r(7) r(8)]] by auto
  obtain i1 i2 where I: "fmt_d 2 (minute t) = [i1, i2]"
    using len2[OF fmt_d_ok(1)[OF r(9) r(10)]] by auto
  obtain s1 s2 where S: "fmt_d 2 (second t) = [s1, s2]"
    using len2[OF fmt_d_ok(1)[OF r(11) r(12)]] by auto
  obtain u1 u2 u3 u4 u5 u6 where U: "fmt_d 6 (microsecond t) = [u1, u2, u3, u4, u5, u6]"
    using len6[OF fmt_d_ok(1)[OF r(13) r(14)]] by auto
  have pY: "parse_digits [y1, y2, y3, y4] = Some (nat (year t))"
    using fmt_d_ok(2)[OF r(1) r(2)] Y by simp
  have pM: "parse_digits [m1, m2] = Some (nat (month t))"
    using fmt_d_ok(2)[OF r(3) r(4)] M by simp
  have pD: "parse_digits [d1, d2] = Some (nat (day t))"
    using fmt_d_ok(2)[OF r(5) r(6)] D by simp
  have pH: "parse_digits [h1, h2] = Some (nat (hour t))"
    using fmt_d_ok(2)[OF r(7) r(8)] H by simp
  have pI: "parse_digits [i1, i2] = Some (nat (minute t))"
    using fmt_d_ok(2)[OF r(9) r(10)] I by simp
  have pS: "parse_digits [s1, s2] = Some (nat (second t))"
    using fmt_d_ok(2)[OF r(11) r(12)] S by simp
  have pU: "parse_digits [u1, u2, u3, u4, u5, u6] = Some (nat (microsecond t))"
    using fmt_d_ok(2)[OF r(13) r(14)] U by simp
  have same: "\<lparr>year = int (nat (year t)), month = int (nat (month t)), day = int (nat (day t)),
      hour = int (nat (hour t)), minute = int (nat (minute t)), second = int (nat (second t)),
      microsecond = int (nat (microsecond t))\<rparr> = t"
    using r by simp
  show ?thesis
  proof (cases "microsecond t = 0")
    case True
    have iso: "isoformat t = [y1, y2, y3, y4, CHR ''-'', m1, m2, CHR ''-'', d1, d2, CHR ''T'',
        h1, h2, CHR '':'', i1, i2, CHR '':'', s1, s2]"
      using True by (simp add: isoformat_def date_str_def Y M D H I S)
    have same0: "\<lparr>year = int (nat (year t)), month = int (nat (month t)), day = int (nat (day t)),
      hour = int (nat (hour t)), minute = int (nat (minute t)), second = int (nat (second t)),
      microsecond = 0\<rparr> = t"
      using same True by simp
    have zero_us: "\<lparr>year = year t, month = month t, day = day t, hour = hour t,
        minute = minute t, second = second t, microsecond = 0\<rparr> = t"
      using True by (cases t) simp
    show ?thesis
      unfolding iso fromisoformat_def
      using r v by (simp add: pY pM pD pH pI pS zero_us Let_def)
  next
    case False
    have iso: "isoformat t = [y1, y2, y3, y4, CHR ''-'', m1, m2, CHR ''-'', d1, d2, CHR ''T'',
        h1, h2, CHR '':'', i1, i2, CHR '':'', s1, s2, CHR ''.'', u1, u2, u3, u4, u5, u6]"
      using False by (simp add: isoformat_def date_str_def Y M D H I S U)
    have all_us: "\<lparr>year = year t, month = month t, day = day t, hour = hour t,
        minute = minute t, second = second t, microsecond = microsecond t\<rparr> = t"
      by (cases t) simp
    show ?thesis
      unfolding iso fromisoformat_def
      using r v by (simp add: pY pM pD pH pI pS pU all_us Let_def)
  qed
qed

lemma collect_map_Inr:
  "(\<And>x. x \<in> set xs \<Longrightarrow> f (g x) = Inr x) \<Longrightarrow> collect (map (f \<circ> g) xs) = Inr xs"
  by (induction xs) simp_all

lemma goal_round_trip:
  assumes "valid_datetime (created_at g)"
  shows "goal_from_dict (goal_to_dict g) = Inr g"
  using fromisoformat_isoformat[OF assms]
  by (simp add: goal_from_dict_def goal_to_dict_def getitem_def bind_err_def as_str_def
      as_int_def as_bool_def Goal_def)

lemma falsy_strs: "falsy (JList (map JStr cds)) = (cds = [])"
  by (simp add: falsy_def)

lemma task_round_trip: "task_from_dict (task_to_dict t) = Inr t"
proof -
  have ints: "as_list as_int (JList (map JInt (days_of_week t))) = Inr (days_of_week t)"
    unfolding as_list_def by (simp add: collect_map_Inr as_int_def)
  have strs: "as_list as_str (JList (map JStr (completed_dates t))) = Inr (completed_dates t)"
    unfolding as_list_def by (simp add: collect_map_Inr as_str_def)
  have whole: "\<lparr>task_name = task_name t, days_of_week = days_of_week t,
      completed_dates = completed_dates t\<rparr> = t"
    by (cases t) simp
  show ?thesis
  proof (cases "completed_dates t = []")
    case True
    have "falsy (JList (map JStr (completed_dates t)))"
      using True by (simp add: falsy_def)
    then show ?thesis
      using whole True
      by (simp add: task_from_dict_def task_to_dict_def getitem_def bind_err_def as_str_def
          ints DailyTask_def)
  next
    case False
    have "\<not> falsy (JList (map JStr (completed_dates t)))"
      using False by (simp add: falsy_def)
    then show ?thesis
      using whole False
      by (simp add: task_from_dict_def task_to_dict_def getitem_def bind_err_def as_str_def
          ints strs DailyTask_def)
  qed
qed

lemma load_save:
  assumes "list_all (\<lambda>g. valid_datetime (created_at g)) gs"
  shows "load_data (save_data gs ts) = Inr (gs, ts)"
proof -
  have g: "collect (map goal_from_dict (map goal_to_dict gs)) = Inr gs"
    unfolding map_map using assms
    by (intro collect_map_Inr goal_round_trip) (simp add: list_all_iff)
  have t: "collect (map task_from_dict (map task_to_dict ts)) = Inr ts"
    unfolding map_map by (intro collect_map_Inr task_round_trip)
  show ?thesis
    using g t
    by (simp add: load_data_def save_data_def get_or_empty_def iterate_def bind_err_def)
qed

lemma valid_T0: "valid_datetime T0"
  by (simp add: valid_datetime_def T0_def days_in_month_def DAYS_IN_MONTH_def is_leap_def)

lemma valid_Tuesday: "valid_datetime Tuesday"
  by (simp add: valid_datetime_def Tuesday_def days_in_month_def DAYS_IN_MONTH_def is_leap_def)

text \<open>
  Claim C4.  For all collections of goals and daily tasks, \<open>load_data\<close> on the snapshot that
  \<open>save_data\<close> writes returns the same two lists, every field of every entity equal; the
  creation time is read back to the microsecond, so \<open>deadline_date\<close> and \<open>days_left\<close> of a
  reloaded goal are those of the original.  The hypothesis is what the type \<open>datetime\<close>
  guarantees for every \<open>created_at\<close>: a date of the calendar and a time of day.
\<close>

theorem snapshot_round_trip:
  assumes "list_all (\<lambda>g. valid_datetime (created_at g)) gs"
  shows "load_data (save_data gs ts) = Inr (gs, ts)
     \<and> map (\<lambda>g. bind_err (goal_from_dict (goal_to_dict g)) deadline_date) gs
         = map deadline_date gs
     \<and> map (\<lambda>g. bind_err (goal_from_dict (goal_to_dict g)) (\<lambda>g'. days_left g' now)) gs
         = map (\<lambda>g. days_left g now) gs"
proof -
  have each: "\<And>g. g \<in> set gs \<Longrightarrow> goal_from_dict (goal_to_dict g) = Inr g"
    using assms by (simp add: list_all_iff goal_round_trip)
  have a: "load_data (save_data gs ts) = Inr (gs, ts)"
    using assms by (rule load_save)
  have b: "map (\<lambda>g. bind_err (goal_from_dict (goal_to_dict g)) deadline_date) gs
         = map deadline_date gs"
    by (rule map_cong) (simp_all add: each bind_err_def)
  have c: "map (\<lambda>g. bind_err (goal_from_dict (goal_to_dict g)) (\<lambda>g'. days_left g' now)) gs
         = map (\<lambda>g. days_left g now) gs"
    by (rule map_cong) (simp_all add: each bind_err_def)
  from a b c show ?thesis by blast
qed

theorem snapshot_round_trip_witness:
  "list_all (\<lambda>g. valid_datetime (created_at g))
     [Goal ''Ship report'' 0 None False False T0, Goal ''Read'' 30 (Some Tuesday) True False T0]
   \<and> load_data (save_data
       [Goal ''Ship report'' 0 None False False T0, Goal ''Read'' 30 (Some Tuesday) True False T0]
       [Exercise, DailyTask ''Stretch'' [6] (Some [''2026-11-01''])])
     = Inr ([Goal ''Ship report'' 0 None False False T0,
             Goal ''Read'' 30 (Some Tuesday) True False T0],
            [Exercise, DailyTask ''Stretch'' [6] (Some [''2026-11-01''])])"
proof -
  have v: "list_all (\<lambda>g. valid_datetime (created_at g))
     [Goal ''Ship report'' 0 None False False T0, Goal ''Read'' 30 (Some Tuesday) True False T0]"
    by (simp add: Goal_def valid_T0 valid_Tuesday)
  from v snapshot_round_trip[OF v, of "[Exercise, DailyTask ''Stretch'' [6] (Some [''2026-11-01''])]" T0]
  show ?thesis by blast
qed

section \<open>Loading does not check the flags\<close>

text \<open>
  Claim C10.  \<open>Goal.from_dict\<close> on a dictionary with \<open>completed\<close> and \<open>failed\<close> both true
  returns a goal with both flags true; \<open>load_data\<close> accepts a snapshot holding that
  dictionary and returns the goal as it is; on the resulting collection the statistics give
  \<open>in_progress = total - completed - failed = 1 - 1 - 1\<close>, which is negative.
\<close>

theorem from_dict_keeps_both_flags:
  "goal_from_dict Both_Flags = Inr (Goal ''Ship report'' 7 (Some T0) True True T0)
   \<and> completed (Goal ''Ship report'' 7 (Some T0) True True T0)
   \<and> failed (Goal ''Ship report'' 7 (Some T0) True True T0)
   \<and> load_data (Snapshot (JObj [(''goals'', JList [Both_Flags]), (''daily_tasks'', JList [])]))
       = Inr ([Goal ''Ship report'' 7 (Some T0) True True T0], [])
   \<and> goals_stats [Goal ''Ship report'' 7 (Some T0) True True T0]
       = Inr \<lparr>stats_total = 1, stats_completed = 1, stats_failed = 1, stats_in_progress = - 1,
              stats_completion_rate = PyFloat (Finite 100)\<rparr>
   \<and> (- 1 :: int) = 1 - 1 - 1"
  by code_simp

section \<open>Adding and deleting goals\<close>

text \<open>
  Claim C5, as amended.  For every name and every \<open>deadline_days\<close>, \<open>add_goal\<close> raises
  nothing: it constructs the goal (not completed, not failed, created now), appends it at the
  end of the goals collection and persists the collection with the new goal in it.  Neither
  an empty name nor a negative \<open>deadline_days\<close> is rejected.
\<close>

theorem add_goal_never_rejects:
  "add_goal st nm dd now =
     Inr (st\<lparr>goals := goals st @ [next_ref st],
             goal_heap := (goal_heap st)(next_ref st :=
               \<lparr>name = nm, deadline_days = dd, created_at = now,
                completed = False, failed = False\<rparr>),
             next_ref := Suc (next_ref st),
             data_file := save_data
               (map ((goal_heap st)(next_ref st :=
                  \<lparr>name = nm, deadline_days = dd, created_at = now,
                   completed = False, failed = False\<rparr>)) (goals st @ [next_ref st]))
               (map (task_heap st) (daily_tasks st))\<rparr>)"
  by (simp add: add_goal_def manager_save_data_def Goal_def Let_def)

text \<open>
  The claim as stated fails: with the empty name and \<open>deadline_days = -1\<close>, \<open>add_goal\<close> returns
  normally and the goal is in the collection.
\<close>

theorem add_goal_accepts_empty_name_counterexample:
  "\<not> isl (add_goal empty_manager '''' (- 1) T0)
   \<and> map_sum id goals (add_goal empty_manager '''' (- 1) T0) = Inr [0]
   \<and> map_sum id (\<lambda>s. name (goal_heap s 0)) (add_goal empty_manager '''' (- 1) T0) = Inr ''''
   \<and> map_sum id (\<lambda>s. deadline_days (goal_heap s 0)) (add_goal empty_manager '''' (- 1) T0)
       = Inr (- 1)"
  by (simp add: add_goal_def manager_save_data_def Goal_def Let_def empty_manager_def)

text \<open>
  Claim C6.  \<open>delete_goal\<close> on a goal that is in the collection removes that object (one
  entry fewer; with every object listed once, exactly the others remain) and persists the
  remaining goals; on a goal that is not in the collection it raises \<open>ValueError\<close>, the
  not-found error of \<open>list.remove\<close>, and no state is produced, so the collection is as before.
\<close>

theorem delete_goal_by_identity:
  "(r \<in> set (goals st) \<longrightarrow>
      delete_goal st r =
        Inr (st\<lparr>goals := remove1 r (goals st),
                data_file := save_data (map (goal_heap st) (remove1 r (goals st)))
                               (map (task_heap st) (daily_tasks st))\<rparr>)
      \<and> length (remove1 r (goals st)) = length (goals st) - 1
      \<and> (distinct (goals st) \<longrightarrow> set (remove1 r (goals st)) = set (goals st) - {r}))
   \<and> (r \<notin> set (goals st) \<longrightarrow> delete_goal st r = Inl ValueError)"
  by (simp add: delete_goal_def manager_save_data_def length_remove1)

theorem delete_goal_by_identity_witness:
  "1 \<in> set (goals Two_Goals) \<and> distinct (goals Two_Goals)
   \<and> goal_heap Two_Goals 0 = goal_heap Two_Goals 1
   \<and> map_sum id goals (delete_goal Two_Goals 1) = Inr [0]
   \<and> 5 \<notin> set (goals Two_Goals)
   \<and> delete_goal Two_Goals 5 = Inl ValueError"
proof -
  have p: "1 \<in> set (goals Two_Goals)" "distinct (goals Two_Goals)"
    "goal_heap Two_Goals 0 = goal_heap Two_Goals 1" "5 \<notin> set (goals Two_Goals)"
    by (simp_all add: Two_Goals_def)
  have a: "map_sum id goals (delete_goal Two_Goals 1) = Inr [0]"
    using delete_goal_by_identity[of 1 Two_Goals] p by (simp add: Two_Goals_def)
  have b: "delete_goal Two_Goals 5 = Inl ValueError"
    using delete_goal_by_identity[of 5 Two_Goals] p by simp
  from p a b show ?thesis by blast
qed

end
